theory Spec2Isabelle
  imports Main "HOL-Library.Sublist"
begin

section \<open>Python strings\<close>

text \<open>
  A Python \<open>str\<close> is a sequence of Unicode code points. A character is modelled by its
  code point, so that the model covers every argument the program can receive and not
  only strings of single bytes. \<open>str\<close> turns a literal of the source into its code points.
\<close>

type_synonym pychar = nat
type_synonym pystr = "pychar list"

definition str :: "string \<Rightarrow> pystr" where
  "str s = map of_char s"

definition SPACE :: pychar where "SPACE = 32"
definition COLON :: pychar where "COLON = 58"
definition DOT :: pychar where "DOT = 46"
definition SLASH :: pychar where "SLASH = 47"

text \<open>\<open>os.linesep\<close> on a POSIX system.\<close>

definition linesep :: pystr where
  "linesep = [10]"

text \<open>
  \<open>str.isspace\<close> for one character, as CPython's table of white space has it; this is the
  set \<open>str.strip()\<close> removes when it is called without an argument.
\<close>

definition is_whitespace :: "pychar \<Rightarrow> bool" where
  "is_whitespace c \<longleftrightarrow>
     (9 \<le> c \<and> c \<le> 13) \<or> (28 \<le> c \<and> c \<le> 32) \<or> c = 133 \<or> c = 160 \<or> c = 5760 \<or>
     (8192 \<le> c \<and> c \<le> 8202) \<or> c = 8232 \<or> c = 8233 \<or> c = 8239 \<or> c = 8287 \<or>
     c = 12288"

definition lstrip :: "pystr \<Rightarrow> pystr" where
  "lstrip s = dropWhile is_whitespace s"

definition rstrip :: "pystr \<Rightarrow> pystr" where
  "rstrip s = rev (dropWhile is_whitespace (rev s))"

definition strip :: "pystr \<Rightarrow> pystr" where
  "strip s = rstrip (lstrip s)"

text \<open>
  \<open>s.replace(old, new)\<close>: the occurrences of \<open>old\<close> are found from left to right and do
  not overlap; an empty \<open>old\<close> matches before every character and at the end.
\<close>

function replace :: "pystr \<Rightarrow> pystr \<Rightarrow> pystr \<Rightarrow> pystr" where
  "replace old new s =
     (if old = [] then new @ concat (map (\<lambda>c. c # new) s)
      else if s = [] then []
      else if prefix old s then new @ replace old new (drop (length old) s)
      else hd s # replace old new (tl s))"
  by pat_completeness auto
termination
  by (relation "measure (\<lambda>(old, new, s). length s)") auto

text \<open>
  \<open>s.split(sep, 1)\<close> for a separator of one character: at most one split, at the first
  occurrence of the separator.
\<close>

definition split1 :: "pychar \<Rightarrow> pystr \<Rightarrow> pystr list" where
  "split1 sep s =
     (if sep \<in> set s
      then [takeWhile (\<lambda>c. c \<noteq> sep) s, tl (dropWhile (\<lambda>c. c \<noteq> sep) s)]
      else [s])"

text \<open>\<open>s.rfind(c)\<close> for one character: the index of its last occurrence, or \<open>-1\<close>.\<close>

fun rfind :: "pychar \<Rightarrow> pystr \<Rightarrow> int" where
  "rfind c [] = - 1"
| "rfind c (x # xs) =
     (let r = rfind c xs in if 0 \<le> r then r + 1 else if x = c then 0 else - 1)"

text \<open>
  \<open>os.path.splitext\<close> of \<open>posixpath\<close> (\<open>genericpath._splitext\<close> with \<open>sep = '/'\<close>, no
  \<open>altsep\<close> and \<open>extsep = '.'\<close>). The loop skips the leading dots of the file name: it
  answers whether a character other than a dot stands between the last separator and
  the last dot.
\<close>

function skip_leading_dots :: "pystr \<Rightarrow> nat \<Rightarrow> nat \<Rightarrow> bool" where
  "skip_leading_dots p filenameIndex dotIndex =
     (if filenameIndex < dotIndex
      then (if take 1 (drop filenameIndex p) \<noteq> [DOT] then True
            else skip_leading_dots p (filenameIndex + 1) dotIndex)
      else False)"
  by pat_completeness auto
termination
  by (relation "measure (\<lambda>(p, filenameIndex, dotIndex). dotIndex - filenameIndex)") auto

definition splitext :: "pystr \<Rightarrow> pystr \<times> pystr" where
  "splitext p =
     (let sepIndex = rfind SLASH p;
          dotIndex = rfind DOT p
      in if dotIndex > sepIndex \<and> skip_leading_dots p (nat (sepIndex + 1)) (nat dotIndex)
         then (take (nat dotIndex) p, drop (nat dotIndex) p)
         else (p, []))"

section \<open>The derived name strings\<close>

text \<open>
  Lines 71 to 77 of \<open>main\<close>: the strings written into the name table, computed from the
  family name and the style of one pair.
\<close>

definition postscript_font_name :: "pystr \<Rightarrow> pystr" where
  "postscript_font_name font_name = replace [SPACE] [] font_name"

definition nameID1_string :: "pystr \<Rightarrow> pystr" where
  "nameID1_string font_name = font_name"

definition nameID16_string :: "pystr \<Rightarrow> pystr" where
  "nameID16_string font_name = font_name"

definition nameID4_string :: "pystr \<Rightarrow> pystr \<Rightarrow> pystr" where
  "nameID4_string font_name style = font_name @ str '' '' @ style"

definition nameID6_string :: "pystr \<Rightarrow> pystr \<Rightarrow> pystr" where
  "nameID6_string font_name style =
     postscript_font_name font_name @ str ''-'' @ replace [SPACE] [] style"

text \<open>Lines 104 to 107: the name of the file the font is saved to.\<close>

definition safe_style :: "pystr \<Rightarrow> pystr" where
  "safe_style style = replace [SPACE] [] style"

definition new_filename :: "pystr \<Rightarrow> pystr \<Rightarrow> pystr \<Rightarrow> pystr" where
  "new_filename font_name style font_path =
     (let ext = snd (splitext font_path)
      in postscript_font_name font_name @ str ''-'' @ safe_style style @ ext)"

text \<open>
  Lines 53 to 60: the test for the colon, the split at the first colon and the trimming
  of both parts. Unpacking the result of \<open>split\<close> into two names raises \<open>ValueError\<close>
  when the list does not have two elements; \<open>None\<close> stands for the token the program
  rejects with its format message.
\<close>

datatype exn_kind = NameError | IndexError | ValueError | KeyError | AttributeError
  | TTLibError | OSError

datatype exn = Exn exn_kind pystr

fun exn_str :: "exn \<Rightarrow> pystr" where
  "exn_str (Exn k m) = m"

definition split_family_style :: "pystr \<Rightarrow> (exn + pystr \<times> pystr) option" where
  "split_family_style family_style =
     (if COLON \<notin> set family_style then None
      else (case split1 COLON family_style of
              [font_name, style] \<Rightarrow> Some (Inr (strip font_name, strip style))
            | _ \<Rightarrow> Some (Inl (Exn ValueError (str ''not enough values to unpack'')))))"

section \<open>Fonts, files and the effects of the program\<close>

text \<open>
  The font library is not part of the repository. The model keeps of a font what the
  program reads and writes: the records of the \<open>name\<close> table, when the font has one,
  and the \<open>CFF\<close> table, when the font has one. Reading \<open>tt["CFF "]\<close> gives either an
  object without the attribute \<open>cff\<close> (a table the library could not decompile) or a
  font set, a list of top dictionaries with the list of font names.
\<close>

record NameRecord =
  nameID :: nat
  platformID :: nat
  platEncID :: nat
  langID :: nat
  string :: pystr

record TopDict =
  FamilyName :: pystr
  FullName :: pystr

record CFFFontSet =
  topDictIndex :: "TopDict list"
  fontNames :: "pystr list"

datatype cff_table = Undecompiled | Decompiled CFFFontSet

record TTFont =
  name_table :: "NameRecord list option"
  CFF_table :: "cff_table option"

text \<open>
  A path of the file system names a directory, a regular file that the library parses
  to a font, or a regular file on which the library raises the given exception.
\<close>

datatype node = Directory | FontFile TTFont | OtherFile exn

type_synonym filesystem = "pystr \<Rightarrow> node option"

text \<open>
  What the program does to the outside: the lines it prints, the text it writes to the
  error stream, the fonts it opens and the fonts it saves.
\<close>

datatype event = Print pystr | Stderr pystr | Open_font pystr | Save_font pystr TTFont

record state =
  fs :: filesystem
  trace :: "event list"

definition emit :: "event \<Rightarrow> state \<Rightarrow> state" where
  "emit e st = st\<lparr>trace := trace st @ [e]\<rparr>"

text \<open>
  How a run ends: \<open>main\<close> returns, \<open>sys.exit(n)\<close> is called, or an exception reaches the
  top level, where the interpreter prints a traceback and exits with status 1.
\<close>

datatype outcome = Returned | SysExit nat | Uncaught exn

fun exit_code :: "outcome \<Rightarrow> nat" where
  "exit_code Returned = 0"
| "exit_code (SysExit n) = n"
| "exit_code (Uncaught e) = 1"

text \<open>Lines 125 to 127.\<close>

definition file_exists :: "filesystem \<Rightarrow> pystr \<Rightarrow> bool" where
  "file_exists files filepath =
     (files filepath \<noteq> None \<and> files filepath \<noteq> Some Directory)"

text \<open>\<open>ttLib.TTFont(font_path)\<close> on a path that \<open>file_exists\<close> has accepted.\<close>

definition ttLib_TTFont :: "filesystem \<Rightarrow> pystr \<Rightarrow> exn + TTFont" where
  "ttLib_TTFont files font_path =
     (case files font_path of
        Some (FontFile tt) \<Rightarrow> Inr tt
      | Some (OtherFile e) \<Rightarrow> Inl e
      | Some Directory \<Rightarrow> Inl (Exn OSError (str ''Is a directory''))
      | None \<Rightarrow> Inl (Exn OSError (str ''No such file or directory'')))"

text \<open>
  \<open>tt.save(new_filename)\<close>: the write fails on a directory and on every path the
  environment does not let the process write to; otherwise the file holds the font.
\<close>

definition tt_save :: "(pystr \<Rightarrow> bool) \<Rightarrow> filesystem \<Rightarrow> TTFont \<Rightarrow> pystr \<Rightarrow> exn + filesystem" where
  "tt_save writable files tt filename =
     (if files filename = Some Directory then Inl (Exn OSError (str ''Is a directory''))
      else if \<not> writable filename then Inl (Exn OSError (str ''Permission denied''))
      else Inr (files(filename \<mapsto> FontFile tt)))"

section \<open>The renamer\<close>

text \<open>Lines 80 to 90: the chain of tests on one record of the name table.\<close>

definition update_record :: "pystr \<Rightarrow> pystr \<Rightarrow> NameRecord \<Rightarrow> NameRecord" where
  "update_record font_name style record =
     (if nameID record = 1 then record\<lparr>string := nameID1_string font_name\<rparr>
      else if nameID record = 4 then record\<lparr>string := nameID4_string font_name style\<rparr>
      else if nameID record = 6 then record\<lparr>string := nameID6_string font_name style\<rparr>
      else if nameID record = 16 then record\<lparr>string := nameID16_string font_name\<rparr>
      else if nameID record = 2 then record\<lparr>string := style\<rparr>
      else record)"

definition update_records :: "pystr \<Rightarrow> pystr \<Rightarrow> NameRecord list \<Rightarrow> NameRecord list" where
  "update_records font_name style namerecord_list =
     map (update_record font_name style) namerecord_list"

text \<open>
  Lines 95 to 98, the body of the \<open>try\<close>: \<open>cff.cff\<close> raises on a table without that
  attribute and \<open>cff.cff[0]\<close> raises on an empty font set, both before anything is
  assigned; the three assignments themselves cannot fail.
\<close>

definition update_cff :: "pystr \<Rightarrow> pystr \<Rightarrow> cff_table \<Rightarrow> exn + cff_table" where
  "update_cff font_name style cff =
     (case cff of
        Undecompiled \<Rightarrow> Inl (Exn AttributeError (str ''cff''))
      | Decompiled fontset \<Rightarrow>
          (case topDictIndex fontset of
             [] \<Rightarrow> Inl (Exn IndexError (str ''list index out of range''))
           | top_dict # rest \<Rightarrow>
               Inr (Decompiled (fontset
                 \<lparr>topDictIndex :=
                    top_dict\<lparr>FamilyName := nameID1_string font_name,
                        FullName := nameID4_string font_name style\<rparr> # rest,
                  fontNames := [nameID6_string font_name style]\<rparr>))))"

section \<open>The messages\<close>

definition msg_pairs :: pystr where
  "msg_pairs = str ''[fontname.py] ERROR: arguments must be pairs of \"Font Family:Weight\" and font path.'' @ linesep"

definition msg_parse :: "exn \<Rightarrow> pystr" where
  "msg_parse e = str ''[fontname.py] ERROR: Unable to parse arguments. '' @ exn_str e @ linesep"

definition msg_format :: "pystr \<Rightarrow> pystr" where
  "msg_format family_style =
     str ''[fontname.py] ERROR: ''
     @ [39] @ family_style @ [39] @ str '' must be in ''
     @ [39] @ str ''Font Family:Weight'' @ [39] @ str '' format.'' @ linesep"

definition msg_path :: "pystr \<Rightarrow> pystr" where
  "msg_path font_path =
     str ''[fontname.py] ERROR: the path '' @ [39] @ font_path @ [39]
     @ str '' does not appear to be a valid file path.'' @ linesep"

definition msg_cff :: "exn \<Rightarrow> pystr" where
  "msg_cff e = str ''[fontname.py] ERROR: unable to write new names to CFF table: '' @ exn_str e"

definition msg_save :: "pystr \<Rightarrow> pystr" where
  "msg_save filename =
     str ''[fontname.py] ERROR: unable to save new font file '' @ [39] @ filename @ [39]
     @ str ''. '' @ linesep"

definition msg_ok :: "pystr \<Rightarrow> pystr \<Rightarrow> pystr \<Rightarrow> pystr" where
  "msg_ok filename font_name style =
     str ''[OK] Saved '' @ [39] @ filename @ [39] @ str '' with family '' @ [39] @ font_name
     @ [39] @ str '' and style '' @ [39] @ style @ [39]"

section \<open>The driver\<close>

text \<open>
  \<open>range(start, stop, 2)\<close>, the indices the loop of \<open>main\<close> runs over.
\<close>

function range2 :: "nat \<Rightarrow> nat \<Rightarrow> nat list" where
  "range2 start stop = (if start < stop then start # range2 (start + 2) stop else [])"
  by pat_completeness auto
termination
  by (relation "measure (\<lambda>(start, stop). stop - start)") auto

text \<open>\<open>argv[i]\<close>: an index out of range raises \<open>IndexError\<close>.\<close>

definition argv_get :: "pystr list \<Rightarrow> nat \<Rightarrow> exn + pystr" where
  "argv_get argv i =
     (if i < length argv then Inr (argv ! i)
      else Inl (Exn IndexError (str ''list index out of range'')))"

text \<open>Lines 44 to 45, the body of the first \<open>try\<close> of the loop.\<close>

definition get_pair :: "pystr list \<Rightarrow> nat \<Rightarrow> exn + pystr \<times> pystr" where
  "get_pair argv i =
     (case argv_get argv i of
        Inl e \<Rightarrow> Inl e
      | Inr family_style \<Rightarrow>
          (case argv_get argv (i + 1) of
             Inl e \<Rightarrow> Inl e
           | Inr font_path \<Rightarrow> Inr (family_style, font_path)))"

text \<open>
  Lines 109 to 120: the font is saved and the confirmation printed; a failure of the
  write is reported on the error stream and ends the run with status 1. A step of the
  loop gives the new state and, when the run ends there, how it ends.
\<close>

definition save_step ::
  "(pystr \<Rightarrow> bool) \<Rightarrow> pystr \<Rightarrow> pystr \<Rightarrow> pystr \<Rightarrow> TTFont \<Rightarrow> state \<Rightarrow> state \<times> outcome option" where
  "save_step writable font_name style filename tt st =
     (case tt_save writable (fs st) tt filename of
        Inr files \<Rightarrow>
          (emit (Print (msg_ok filename font_name style))
             (emit (Save_font filename tt) (st\<lparr>fs := files\<rparr>)), None)
      | Inl e \<Rightarrow>
          (emit (Stderr (exn_str e @ linesep)) (emit (Stderr (msg_save filename)) st),
           Some (SysExit 1)))"

text \<open>Lines 92 to 102: the names of the CFF table, when the font has one.\<close>

definition cff_step :: "pystr \<Rightarrow> pystr \<Rightarrow> TTFont \<Rightarrow> state \<Rightarrow> TTFont \<times> state" where
  "cff_step font_name style tt st =
     (case CFF_table tt of
        None \<Rightarrow> (tt, st)
      | Some cff \<Rightarrow>
          (case update_cff font_name style cff of
             Inr cff' \<Rightarrow> (tt\<lparr>CFF_table := Some cff'\<rparr>, st)
           | Inl e \<Rightarrow> (tt, emit (Stderr (msg_cff e)) st)))"

text \<open>
  Lines 69 to 120: the font is opened, its name records and its CFF names are set and
  it is saved under the new file name. Nothing catches what \<open>ttLib.TTFont\<close> or
  \<open>tt["name"]\<close> raise.
\<close>

definition rename_font ::
  "(pystr \<Rightarrow> bool) \<Rightarrow> pystr \<Rightarrow> pystr \<Rightarrow> pystr \<Rightarrow> state \<Rightarrow> state \<times> outcome option" where
  "rename_font writable font_name style font_path st =
     (let st1 = emit (Open_font font_path) st
      in case ttLib_TTFont (fs st) font_path of
           Inl e \<Rightarrow> (st1, Some (Uncaught e))
         | Inr tt \<Rightarrow>
             (case name_table tt of
                None \<Rightarrow> (st1, Some (Uncaught (Exn KeyError (str ''name''))))
              | Some namerecord_list \<Rightarrow>
                  (let tt1 = tt\<lparr>name_table :=
                               Some (update_records font_name style namerecord_list)\<rparr>;
                       (tt2, st2) = cff_step font_name style tt1 st1
                   in save_step writable font_name style
                        (new_filename font_name style font_path) tt2 st2)))"

text \<open>Lines 43 to 120: one round of the loop, for the pair at index \<open>i\<close>.\<close>

definition loop_body ::
  "(pystr \<Rightarrow> bool) \<Rightarrow> pystr list \<Rightarrow> nat \<Rightarrow> state \<Rightarrow> state \<times> outcome option" where
  "loop_body writable argv i st =
     (case get_pair argv i of
        Inl e \<Rightarrow> (emit (Stderr (msg_parse e)) st, Some (SysExit 1))
      | Inr (family_style, font_path) \<Rightarrow>
          (case split_family_style family_style of
             None \<Rightarrow> (emit (Stderr (msg_format family_style)) st, Some (SysExit 1))
           | Some (Inl e) \<Rightarrow> (st, Some (Uncaught e))
           | Some (Inr (font_name, style)) \<Rightarrow>
               (if \<not> file_exists (fs st) font_path
                then (emit (Stderr (msg_path font_path)) st, Some (SysExit 1))
                else rename_font writable font_name style font_path st)))"

fun loop :: "(pystr \<Rightarrow> bool) \<Rightarrow> pystr list \<Rightarrow> nat list \<Rightarrow> state \<Rightarrow> state \<times> outcome" where
  "loop writable argv [] st = (st, Returned)"
| "loop writable argv (i # indices) st =
     (case loop_body writable argv i st of
        (st', Some result) \<Rightarrow> (st', result)
      | (st', None) \<Rightarrow> loop writable argv indices st')"

text \<open>
  Lines 28 to 120. When the number of arguments is wrong the first message is written;
  the second one is an f-string that evaluates the tuple \<open>(ttf, otf)\<close> of two names the
  program never binds, so it raises \<open>NameError\<close> and \<open>sys.exit(1)\<close> is not reached.
\<close>

definition main :: "(pystr \<Rightarrow> bool) \<Rightarrow> filesystem \<Rightarrow> pystr list \<Rightarrow> state \<times> outcome" where
  "main writable files argv =
     (let st = emit (Print (str '' '')) \<lparr>fs = files, trace = []\<rparr>
      in if length argv < 2 \<or> length argv mod 2 \<noteq> 0
         then (emit (Stderr msg_pairs) st,
               Uncaught (Exn NameError (str ''name '' @ [39] @ str ''ttf'' @ [39] @ str '' is not defined'')))
         else loop writable argv (range2 0 (length argv)) st)"

text \<open>What a trace shows of the fonts: the paths opened and the paths saved to, in order.\<close>

fun opened_path :: "event \<Rightarrow> pystr option" where
  "opened_path (Open_font p) = Some p"
| "opened_path e = None"

fun saved_path :: "event \<Rightarrow> pystr option" where
  "saved_path (Save_font p tt) = Some p"
| "saved_path e = None"

definition opened :: "state \<Rightarrow> pystr list" where
  "opened st = List.map_filter opened_path (trace st)"

definition saved :: "state \<Rightarrow> pystr list" where
  "saved st = List.map_filter saved_path (trace st)"

fun stderr_text :: "event \<Rightarrow> pystr option" where
  "stderr_text (Stderr s) = Some s"
| "stderr_text e = None"

definition stderr_writes :: "state \<Rightarrow> pystr list" where
  "stderr_writes st = List.map_filter stderr_text (trace st)"

definition error_prefix :: pystr where
  "error_prefix = str ''[fontname.py] ERROR:''"

section \<open>Argument lists the program rejects\<close>

text \<open>
  The argument list has the wrong length when it is shorter than two or odd. The pair
  number \<open>k\<close> (the arguments \<open>2k\<close> and \<open>2k + 1\<close>) offends when its first argument has no
  colon, or when its path names no regular file: neither at the start of the run nor
  as the file an earlier pair of the list saves to.
\<close>

definition bad_length :: "pystr list \<Rightarrow> bool" where
  "bad_length argv \<longleftrightarrow> length argv < 2 \<or> odd (length argv)"

definition pair_output :: "pystr \<Rightarrow> pystr \<Rightarrow> pystr option" where
  "pair_output family_style font_path =
     (case split_family_style family_style of
        Some (Inr (font_name, style)) \<Rightarrow> Some (new_filename font_name style font_path)
      | _ \<Rightarrow> None)"

definition outputs_before :: "pystr list \<Rightarrow> nat \<Rightarrow> pystr list" where
  "outputs_before argv k =
     List.map_filter (\<lambda>j. pair_output (argv ! (2 * j)) (argv ! (2 * j + 1))) [0..<k]"

definition paths_before :: "pystr list \<Rightarrow> nat \<Rightarrow> pystr list" where
  "paths_before argv k = map (\<lambda>j. argv ! (2 * j + 1)) [0..<k]"

definition offending :: "filesystem \<Rightarrow> pystr list \<Rightarrow> nat \<Rightarrow> bool" where
  "offending files argv k \<longleftrightarrow>
     2 * k + 1 < length argv \<and>
     (COLON \<notin> set (argv ! (2 * k)) \<or>
      (\<not> file_exists files (argv ! (2 * k + 1)) \<and>
       argv ! (2 * k + 1) \<notin> set (outputs_before argv k)))"

definition malformed :: "filesystem \<Rightarrow> pystr list \<Rightarrow> bool" where
  "malformed files argv \<longleftrightarrow>
     bad_length argv \<or> list_ex (offending files argv) [0..<length argv div 2]"

section \<open>Facts about the string operations\<close>

declare replace.simps [simp del] skip_leading_dots.simps [simp del] range2.simps [simp del]

lemma replace_single:
  "replace [c] new s = concat (map (\<lambda>x. if x = c then new else [x]) s)"
proof (induction s)
  case Nil
  show ?case by (simp add: replace.simps)
next
  case (Cons x xs)
  show ?case
    using Cons.IH by (subst replace.simps) auto
qed

lemma replace_space: "replace [SPACE] [] s = filter (\<lambda>c. c \<noteq> SPACE) s"
  by (induction s) (simp_all add: replace_single)

lemma str_space: "str '' '' = [SPACE]"
  by (simp add: str_def SPACE_def)

lemma rfind_lower: "- 1 \<le> rfind c s"
  by (induction s) (auto simp: Let_def)

lemma rfind_neg_iff: "rfind c s < 0 \<longleftrightarrow> c \<notin> set s"
  by (induction s) (auto simp: Let_def)

lemma rfind_notin: "c \<notin> set s \<Longrightarrow> rfind c s = - 1"
  using rfind_neg_iff [of c s] rfind_lower [of c s] by linarith

lemma rfind_append:
  "rfind c (xs @ ys) = (if c \<in> set ys then int (length xs) + rfind c ys else rfind c xs)"
proof (induction xs)
  case Nil
  show ?case by (simp add: rfind_notin)
next
  case (Cons x xs)
  show ?case
    using rfind_neg_iff [of c ys] rfind_neg_iff [of c xs] by (auto simp: Cons.IH Let_def)
qed

lemma rfind_upper: "rfind c s < int (length s)"
  by (induction s) (auto simp: Let_def)

lemma rfind_nth: "0 \<le> rfind c s \<Longrightarrow> s ! nat (rfind c s) = c"
proof (induction s)
  case Nil
  then show ?case by simp
next
  case (Cons x xs)
  show ?case
  proof (cases "0 \<le> rfind c xs")
    case True
    then have "nat (rfind c xs + 1) = Suc (nat (rfind c xs))" by simp
    with True Cons.IH show ?thesis by (simp add: Let_def)
  next
    case False
    with Cons.prems show ?thesis by (auto simp: Let_def split: if_splits)
  qed
qed

lemma rfind_below_drop: "rfind c s < int k \<Longrightarrow> c \<notin> set (drop k s)"
proof
  assume lt: "rfind c s < int k" and mem: "c \<in> set (drop k s)"
  have "rfind c (take k s @ drop k s) = int (length (take k s)) + rfind c (drop k s)"
    using mem by (simp only: rfind_append if_True)
  moreover have "0 \<le> rfind c (drop k s)"
    using mem rfind_neg_iff [of c "drop k s"] by simp
  moreover have "k \<le> length s"
    using mem by (cases "k \<le> length s") auto
  ultimately show False using lt by simp
qed

lemma rfind_last: "0 \<le> rfind c s \<Longrightarrow> c \<notin> set (drop (Suc (nat (rfind c s))) s)"
  by (rule rfind_below_drop) simp

lemma skip_leading_dots_iff:
  "skip_leading_dots p i d \<longleftrightarrow> (\<exists>k. i \<le> k \<and> k < d \<and> take 1 (drop k p) \<noteq> [DOT])"
proof (induction p i d rule: skip_leading_dots.induct)
  case (1 p i d)
  show ?case
  proof (cases "i < d")
    case False
    then show ?thesis by (subst skip_leading_dots.simps) auto
  next
    case True
    show ?thesis
    proof (cases "take 1 (drop i p) \<noteq> [DOT]")
      case nd: True
      with True show ?thesis by (subst skip_leading_dots.simps) auto
    next
      case dot: False
      have "skip_leading_dots p i d = skip_leading_dots p (i + 1) d"
        using True dot by (subst skip_leading_dots.simps) simp
      also have "\<dots> \<longleftrightarrow> (\<exists>k. i + 1 \<le> k \<and> k < d \<and> take 1 (drop k p) \<noteq> [DOT])"
        using "1.IH" True dot by simp
      also have "\<dots> \<longleftrightarrow> (\<exists>k. i \<le> k \<and> k < d \<and> take 1 (drop k p) \<noteq> [DOT])"
      proof
        assume "\<exists>k. i + 1 \<le> k \<and> k < d \<and> take 1 (drop k p) \<noteq> [DOT]"
        then obtain k where "i + 1 \<le> k" "k < d" "take 1 (drop k p) \<noteq> [DOT]" by blast
        then show "\<exists>k. i \<le> k \<and> k < d \<and> take 1 (drop k p) \<noteq> [DOT]"
          by (intro exI [of _ k]) simp
      next
        assume "\<exists>k. i \<le> k \<and> k < d \<and> take 1 (drop k p) \<noteq> [DOT]"
        then obtain k where k: "i \<le> k" "k < d" "take 1 (drop k p) \<noteq> [DOT]" by blast
        with dot have "k \<noteq> i" by auto
        with k show "\<exists>k. i + 1 \<le> k \<and> k < d \<and> take 1 (drop k p) \<noteq> [DOT]"
          by (intro exI [of _ k]) simp
      qed
      finally show ?thesis .
    qed
  qed
qed

lemma splitext_append: "fst (splitext p) @ snd (splitext p) = p"
  by (simp add: splitext_def Let_def)

lemma splitext_ext_shape:
  assumes "snd (splitext p) \<noteq> []"
  shows "\<exists>r. snd (splitext p) = DOT # r \<and> DOT \<notin> set r \<and> SLASH \<notin> set (DOT # r)"
proof -
  let ?d = "rfind DOT p" and ?s = "rfind SLASH p"
  from assms have gt: "?s < ?d" and ext: "snd (splitext p) = drop (nat ?d) p"
    by (auto simp: splitext_def Let_def split: if_splits)
  have d0: "0 \<le> ?d" using gt rfind_lower [of SLASH p] by linarith
  have len: "nat ?d < length p" using rfind_upper [of DOT p] d0 by linarith
  have "drop (nat ?d) p = p ! nat ?d # drop (Suc (nat ?d)) p"
    using len by (simp add: Cons_nth_drop_Suc)
  then have shape: "drop (nat ?d) p = DOT # drop (Suc (nat ?d)) p"
    using rfind_nth [OF d0] by simp
  have "DOT \<notin> set (drop (Suc (nat ?d)) p)" by (rule rfind_last [OF d0])
  moreover have "SLASH \<notin> set (drop (nat ?d) p)"
    using gt d0 by (intro rfind_below_drop) simp
  ultimately show ?thesis using ext shape by auto
qed

lemma nth_take1: "k < length p \<Longrightarrow> take 1 (drop k p) = [p ! k]"
  by (simp add: Cons_nth_drop_Suc [symmetric])

lemma splitext_rebuilt:
  assumes dot: "DOT \<notin> set r" and slash: "SLASH \<notin> set (DOT # r)"
    and k: "rfind SLASH a < int k" "k < length a" "a ! k \<noteq> DOT"
  shows "splitext (a @ DOT # r) = (a, DOT # r)"
proof -
  have d: "rfind DOT (a @ DOT # r) = int (length a)"
    using dot by (simp add: rfind_append rfind_notin Let_def)
  have s: "rfind SLASH (a @ DOT # r) = rfind SLASH a"
    using slash by (simp only: rfind_append if_False)
  have "take 1 (drop k (a @ DOT # r)) = [(a @ DOT # r) ! k]"
    using k(2) by (intro nth_take1) simp
  also have "(a @ DOT # r) ! k = a ! k"
    using k(2) by (simp add: nth_append)
  finally have "take 1 (drop k (a @ DOT # r)) = [a ! k]" .
  then have "\<exists>j. nat (rfind SLASH a + 1) \<le> j \<and> j < length a \<and> take 1 (drop j (a @ DOT # r)) \<noteq> [DOT]"
    using k by (intro exI [of _ k]) auto
  then have "skip_leading_dots (a @ DOT # r) (nat (rfind SLASH a + 1)) (length a)"
    by (simp only: skip_leading_dots_iff)
  then show ?thesis
    using d s rfind_upper [of SLASH a] by (simp add: splitext_def Let_def)
qed

lemma splitext_no_dot: "DOT \<notin> set p \<Longrightarrow> splitext p = (p, [])"
  using rfind_lower [of SLASH p] by (simp add: splitext_def Let_def rfind_notin)

lemma str_dash: "str ''-'' = [45]"
  by (simp add: str_def)

lemma postscript_filter: "postscript_font_name font_name = filter (\<lambda>c. c \<noteq> SPACE) font_name"
  by (simp add: postscript_font_name_def replace_space)

lemma safe_style_filter: "safe_style style = filter (\<lambda>c. c \<noteq> SPACE) style"
  by (simp add: safe_style_def replace_space)

lemma new_filename_again_ext:
  assumes ext: "snd (splitext font_path) \<noteq> []" and slash: "SLASH \<notin> set style"
  shows "new_filename font_name style (new_filename font_name style font_path) =
         new_filename font_name style font_path"
proof -
  obtain r where r: "snd (splitext font_path) = DOT # r" "DOT \<notin> set r" "SLASH \<notin> set (DOT # r)"
    using splitext_ext_shape [OF ext] by blast
  let ?ps = "postscript_font_name font_name" and ?ss = "safe_style style"
  let ?a = "?ps @ str ''-'' @ ?ss"
  have out: "new_filename font_name style font_path = ?a @ DOT # r"
    by (simp add: new_filename_def r(1))
  have "SLASH \<notin> set (str ''-'' @ ?ss)"
    using slash by (simp add: str_dash safe_style_filter SLASH_def)
  then have "rfind SLASH ?a = rfind SLASH ?ps"
    by (simp only: rfind_append if_False)
  then have k1: "rfind SLASH ?a < int (length ?ps)"
    using rfind_upper [of SLASH ?ps] by simp
  have k2: "length ?ps < length ?a" by (simp add: str_dash)
  have k3: "?a ! length ?ps \<noteq> DOT" by (simp add: str_dash DOT_def)
  have "splitext (?a @ DOT # r) = (?a, DOT # r)"
    by (rule splitext_rebuilt [OF r(2) r(3) k1 k2 k3])
  then show ?thesis
    unfolding out by (simp add: new_filename_def)
qed

lemma new_filename_again_plain:
  assumes ext: "snd (splitext font_path) = []"
    and dots: "DOT \<notin> set font_name" "DOT \<notin> set style"
  shows "new_filename font_name style (new_filename font_name style font_path) =
         new_filename font_name style font_path"
proof -
  let ?a = "postscript_font_name font_name @ str ''-'' @ safe_style style"
  have out: "new_filename font_name style font_path = ?a"
    by (simp add: new_filename_def ext)
  have "DOT \<notin> set ?a"
    using dots by (simp add: str_dash postscript_filter safe_style_filter DOT_def)
  then have "splitext ?a = (?a, [])" by (rule splitext_no_dot)
  then show ?thesis unfolding out by (simp add: new_filename_def)
qed

lemma update_record_twice:
  "update_record font_name style (update_record font_name style r) = update_record font_name style r"
  by (simp add: update_record_def)

lemma strip_no_edge_space:
  "strip s = [] \<or> (\<not> is_whitespace (hd (strip s)) \<and> \<not> is_whitespace (last (strip s)))"
proof -
  let ?l = "dropWhile is_whitespace s"
  let ?r = "dropWhile is_whitespace (rev ?l)"
  show ?thesis
  proof (cases "?r = []")
    case True
    then show ?thesis by (simp add: strip_def rstrip_def lstrip_def)
  next
    case False
    then have h: "\<not> is_whitespace (hd ?r)" by (rule hd_dropWhile)
    have l: "last (rev ?r) = hd ?r" using False by (simp add: last_rev)
    have ne: "?l \<noteq> []"
    proof
      assume e: "?l = []"
      have "dropWhile is_whitespace (rev []) = ([] :: pystr)" by simp
      with e False show False by (simp only:)
    qed
    then have hl: "\<not> is_whitespace (hd ?l)" by (rule hd_dropWhile)
    obtain n where n: "?r = drop n (rev ?l)"
      by (metis dropWhile_eq_drop)
    have "hd (rev ?r) = last ?r" using False by (simp add: hd_rev)
    also have "\<dots> = last (rev ?l)" using n False by simp
    also have "\<dots> = hd ?l" using ne by (simp add: last_rev)
    finally have "hd (rev ?r) = hd ?l" .
    with h l hl show ?thesis by (simp add: strip_def rstrip_def lstrip_def)
  qed
qed

section \<open>Facts about the steps of the loop\<close>

lemma fs_emit [simp]: "fs (emit e st) = fs st"
  by (simp add: emit_def)

lemma opened_emit [simp]:
  "opened (emit e st) = opened st @ (case opened_path e of None \<Rightarrow> [] | Some p \<Rightarrow> [p])"
  by (simp add: opened_def emit_def List.map_filter_def split: option.splits)

lemma saved_emit [simp]:
  "saved (emit e st) = saved st @ (case saved_path e of None \<Rightarrow> [] | Some p \<Rightarrow> [p])"
  by (simp add: saved_def emit_def List.map_filter_def split: option.splits)

lemma opened_fs_update [simp]: "opened (st\<lparr>fs := files\<rparr>) = opened st"
  by (simp add: opened_def)

lemma saved_fs_update [simp]: "saved (st\<lparr>fs := files\<rparr>) = saved st"
  by (simp add: saved_def)

lemma save_step_cases:
  assumes "save_step writable font_name style filename tt st = (st', ro)"
  shows "(ro = None \<and> fs st' = (fs st)(filename \<mapsto> FontFile tt)
            \<and> opened st' = opened st \<and> saved st' = saved st @ [filename])
         \<or> (ro = Some (SysExit 1) \<and> fs st' = fs st
            \<and> opened st' = opened st \<and> saved st' = saved st)"
  using assms
  by (auto simp: save_step_def tt_save_def split: sum.splits if_splits)

lemma cff_step_frame:
  assumes "cff_step font_name style tt st = (tt', st')"
  shows "fs st' = fs st \<and> opened st' = opened st \<and> saved st' = saved st"
  using assms
  by (auto simp: cff_step_def split: option.splits sum.splits)

lemma rename_font_cases:
  assumes "rename_font writable font_name style font_path st = (st', ro)"
  shows "(ro = None \<and> (\<exists>tt. fs st' = (fs st)(new_filename font_name style font_path \<mapsto> FontFile tt))
            \<and> opened st' = opened st @ [font_path]
            \<and> saved st' = saved st @ [new_filename font_name style font_path])
         \<or> ((\<exists>r. ro = Some r \<and> exit_code r = 1) \<and> fs st' = fs st
            \<and> opened st' = opened st @ [font_path] \<and> saved st' = saved st)"
proof (cases "ttLib_TTFont (fs st) font_path")
  case (Inl e)
  with assms show ?thesis by (auto simp: rename_font_def)
next
  case (Inr tt)
  show ?thesis
  proof (cases "name_table tt")
    case None
    with Inr assms show ?thesis by (auto simp: rename_font_def)
  next
    case (Some rs)
    let ?tt1 = "tt\<lparr>name_table := Some (update_records font_name style rs)\<rparr>"
    let ?st1 = "emit (Open_font font_path) st"
    obtain tt2 st2 where c: "cff_step font_name style ?tt1 ?st1 = (tt2, st2)"
      by (cases "cff_step font_name style ?tt1 ?st1")
    from cff_step_frame [OF c]
    have f: "fs st2 = fs st" "opened st2 = opened st @ [font_path]" "saved st2 = saved st"
      by simp_all
    have "save_step writable font_name style (new_filename font_name style font_path) tt2 st2
          = (st', ro)"
      using assms Inr Some c by (simp add: rename_font_def)
    from save_step_cases [OF this] f show ?thesis by auto
  qed
qed

lemma get_pair_in_range:
  "i + 1 < length argv \<Longrightarrow> get_pair argv i = Inr (argv ! i, argv ! (i + 1))"
  by (simp add: get_pair_def argv_get_def)

lemma split1_colon: "COLON \<in> set s \<Longrightarrow>
    split1 COLON s = [takeWhile (\<lambda>c. c \<noteq> COLON) s, tl (dropWhile (\<lambda>c. c \<noteq> COLON) s)]"
  by (simp add: split1_def)

lemma split_family_style_colon:
  "COLON \<in> set s \<Longrightarrow> split_family_style s =
     Some (Inr (strip (takeWhile (\<lambda>c. c \<noteq> COLON) s), strip (tl (dropWhile (\<lambda>c. c \<noteq> COLON) s))))"
  by (simp add: split_family_style_def split1_colon)

lemma split_family_style_no_colon: "COLON \<notin> set s \<Longrightarrow> split_family_style s = None"
  by (simp add: split_family_style_def)

lemma loop_body_cases:
  assumes rng: "i + 1 < length argv"
    and run: "loop_body writable argv i st = (st', ro)"
  shows "(ro = None \<and> COLON \<in> set (argv ! i) \<and> file_exists (fs st) (argv ! (i + 1))
            \<and> (\<exists>out tt. pair_output (argv ! i) (argv ! (i + 1)) = Some out
                  \<and> fs st' = (fs st)(out \<mapsto> FontFile tt)
                  \<and> saved st' = saved st @ [out])
            \<and> opened st' = opened st @ [argv ! (i + 1)])
         \<or> ((\<exists>r. ro = Some r \<and> exit_code r = 1) \<and> fs st' = fs st \<and> saved st' = saved st
            \<and> (opened st' = opened st
                \<or> (opened st' = opened st @ [argv ! (i + 1)] \<and> COLON \<in> set (argv ! i)
                    \<and> file_exists (fs st) (argv ! (i + 1)))))"
proof (cases "COLON \<in> set (argv ! i)")
  case False
  with run rng show ?thesis
    by (auto simp: loop_body_def get_pair_in_range split_family_style_no_colon)
next
  case True
  let ?f = "strip (takeWhile (\<lambda>c. c \<noteq> COLON) (argv ! i))"
  let ?s = "strip (tl (dropWhile (\<lambda>c. c \<noteq> COLON) (argv ! i)))"
  have sp: "split_family_style (argv ! i) = Some (Inr (?f, ?s))"
    using True by (rule split_family_style_colon)
  have po: "pair_output (argv ! i) (argv ! (i + 1)) = Some (new_filename ?f ?s (argv ! (i + 1)))"
    by (simp add: pair_output_def sp)
  show ?thesis
  proof (cases "file_exists (fs st) (argv ! (i + 1))")
    case False
    with run rng sp show ?thesis
      by (auto simp: loop_body_def get_pair_in_range)
  next
    case ex: True
    have "rename_font writable ?f ?s (argv ! (i + 1)) st = (st', ro)"
      using run rng sp ex by (simp add: loop_body_def get_pair_in_range)
    from rename_font_cases [OF this] True ex po show ?thesis by auto
  qed
qed

lemma range2_step: "start < stop \<Longrightarrow> range2 start stop = start # range2 (start + 2) stop"
  by (subst range2.simps) simp

lemma range2_done: "\<not> start < stop \<Longrightarrow> range2 start stop = []"
  by (subst range2.simps) simp

lemma file_exists_other:
  "out \<noteq> p \<Longrightarrow> file_exists (files(out \<mapsto> FontFile tt)) p = file_exists files p"
  by (simp add: file_exists_def)

lemma loop_offending:
  assumes k: "2 * k + 1 < length argv"
    and jk: "j \<le> k"
    and off: "COLON \<notin> set (argv ! (2 * k)) \<or>
       (\<not> file_exists (fs st) (argv ! (2 * k + 1)) \<and>
        argv ! (2 * k + 1) \<notin>
          set (List.map_filter (\<lambda>j. pair_output (argv ! (2 * j)) (argv ! (2 * j + 1))) [j..<k]))"
    and run: "loop writable argv (range2 (2 * j) (length argv)) st = (st', r)"
  shows "exit_code r = 1
     \<and> (\<exists>xs. opened st' = opened st @ xs \<and> prefix xs (map (\<lambda>j. argv ! (2 * j + 1)) [j..<k]))
     \<and> (\<exists>ys. saved st' = saved st @ ys \<and>
          prefix ys (List.map_filter (\<lambda>j. pair_output (argv ! (2 * j)) (argv ! (2 * j + 1))) [j..<k]))"
  using jk off run
proof (induction "k - j" arbitrary: j st)
  case 0
  then have jk: "j = k" by simp
  obtain st1 ro where body: "loop_body writable argv (2 * k) st = (st1, ro)"
    by (cases "loop_body writable argv (2 * k) st")
  have rng: "2 * k + 1 < length argv" by (rule k)
  from loop_body_cases [OF rng body] "0.prems"(2) jk
  obtain r1 where t: "ro = Some r1" "exit_code r1 = 1" "opened st1 = opened st"
      "saved st1 = saved st"
    by auto
  have "loop writable argv (range2 (2 * k) (length argv)) st = (st1, r1)"
    using rng body t(1) by (simp add: range2_step)
  with "0.prems"(3) jk have "st' = st1" "r = r1" by simp_all
  with t show ?case by simp
next
  case (Suc d)
  then have lt: "j < k" and d: "d = k - Suc j" by simp_all
  let ?po = "\<lambda>j. pair_output (argv ! (2 * j)) (argv ! (2 * j + 1))"
  let ?path = "\<lambda>j. argv ! (2 * j + 1)"
  have rng: "2 * j + 1 < length argv" using lt k by simp
  have upt: "[j..<k] = j # [Suc j..<k]" using lt by (simp add: upt_conv_Cons)
  obtain st1 ro where body: "loop_body writable argv (2 * j) st = (st1, ro)"
    by (cases "loop_body writable argv (2 * j) st")
  have step: "loop writable argv (range2 (2 * j) (length argv)) st
      = (case ro of Some result \<Rightarrow> (st1, result)
         | None \<Rightarrow> loop writable argv (range2 (2 * Suc j) (length argv)) st1)"
    using rng body by (simp add: range2_step split: option.splits)
  from loop_body_cases [OF rng body]
  consider
    (continue) out tt where "ro = None" "?po j = Some out"
      "fs st1 = (fs st)(out \<mapsto> FontFile tt)" "saved st1 = saved st @ [out]"
      "opened st1 = opened st @ [?path j]"
  | (stop) r1 where "ro = Some r1" "exit_code r1 = 1" "saved st1 = saved st"
      "opened st1 = opened st \<or> opened st1 = opened st @ [?path j]"
    by auto
  then show ?case
  proof cases
    case stop
    from step stop(1) Suc.prems(3) have e: "st' = st1" "r = r1" by simp_all
    have "prefix [] (map ?path [j..<k])" "prefix [?path j] (map ?path [j..<k])"
      by (simp_all add: upt)
    with stop e show ?thesis by auto
  next
    case continue
    have run1: "loop writable argv (range2 (2 * Suc j) (length argv)) st1 = (st', r)"
      using step continue(1) Suc.prems(3) by simp
    have off1: "COLON \<notin> set (argv ! (2 * k)) \<or>
       (\<not> file_exists (fs st1) (?path k) \<and> ?path k \<notin> set (List.map_filter ?po [Suc j..<k]))"
    proof (cases "COLON \<notin> set (argv ! (2 * k))")
      case True
      then show ?thesis by simp
    next
      case False
      with Suc.prems(2) have a: "\<not> file_exists (fs st) (?path k)"
        and b: "?path k \<notin> set (List.map_filter ?po [j..<k])" by simp_all
      from b continue(2) have ne: "out \<noteq> ?path k"
        and rest: "?path k \<notin> set (List.map_filter ?po [Suc j..<k])"
        by (auto simp: upt List.map_filter_simps)
      from a ne have "\<not> file_exists (fs st1) (?path k)"
        by (simp add: continue(3) file_exists_other)
      with rest show ?thesis by simp
    qed
    have "Suc j \<le> k" using lt by simp
    from Suc.hyps(1) [OF d this off1 run1]
    obtain xs ys where r1: "exit_code r = 1"
      and xs: "opened st' = opened st1 @ xs" "prefix xs (map ?path [Suc j..<k])"
      and ys: "saved st' = saved st1 @ ys" "prefix ys (List.map_filter ?po [Suc j..<k])"
      by blast
    have "opened st' = opened st @ (?path j # xs)" using xs(1) continue(5) by simp
    moreover have "prefix (?path j # xs) (map ?path [j..<k])" using xs(2) by (simp add: upt)
    moreover have "saved st' = saved st @ (out # ys)" using ys(1) continue(4) by simp
    moreover have "prefix (out # ys) (List.map_filter ?po [j..<k])"
      using ys(2) continue(2) by (simp add: upt List.map_filter_simps)
    ultimately show ?thesis using r1 by blast
  qed
qed

section \<open>The claims\<close>

text \<open>
  C1. For every family and style, the derived strings are: the PostScript family is the
  family with every space character removed; the strings of name IDs 1 and 16 are the
  family as it is; the string of name ID 4 is the family, a space and the style; the
  string of name ID 6 is the PostScript family, a hyphen and the style with every space
  character removed; and a record with name ID 2 receives the style as it is.
\<close>

theorem derived_names:
  "postscript_font_name family = filter (\<lambda>c. c \<noteq> SPACE) family
   \<and> nameID1_string family = family
   \<and> nameID16_string family = family
   \<and> nameID4_string family style = family @ str '' '' @ style
   \<and> nameID6_string family style =
       postscript_font_name family @ str ''-'' @ filter (\<lambda>c. c \<noteq> SPACE) style
   \<and> string (update_record family style (r\<lparr>nameID := 2\<rparr>)) = style"
  by (simp add: postscript_filter nameID1_string_def nameID16_string_def nameID4_string_def
      nameID6_string_def replace_space update_record_def)

theorem derived_names_witness:
  "postscript_font_name (str ''Open Sans'') = str ''OpenSans''
   \<and> nameID1_string (str ''Open Sans'') = str ''Open Sans''
   \<and> nameID16_string (str ''Open Sans'') = str ''Open Sans''
   \<and> nameID4_string (str ''Open Sans'') (str ''Bold Italic'') = str ''Open Sans Bold Italic''
   \<and> nameID6_string (str ''Open Sans'') (str ''Bold Italic'') = str ''OpenSans-BoldItalic''
   \<and> string (update_record (str ''Open Sans'') (str ''Bold Italic'')
        \<lparr>nameID = 2, platformID = 3, platEncID = 1, langID = 1033, string = str ''Regular''\<rparr>)
       = str ''Bold Italic''"
  using derived_names [of "str ''Open Sans''" "str ''Bold Italic''"
      "\<lparr>nameID = 2, platformID = 3, platEncID = 1, langID = 1033, string = str ''Regular''\<rparr>"]
  by (simp add: str_def SPACE_def)

text \<open>
  C2. The update of the name table changes nothing but the string of a record: the
  table keeps its length, every record keeps its name ID and its platform, encoding and
  language identifiers (and every other field), and a record whose name ID is not
  1, 2, 4, 6 or 16 is left as it was.
\<close>

theorem name_table_frame:
  "length (update_records font_name style rs) = length rs
   \<and> (\<forall>i < length rs.
         update_records font_name style rs ! i
           = (rs ! i)\<lparr>string := string (update_records font_name style rs ! i)\<rparr>
         \<and> nameID (update_records font_name style rs ! i) = nameID (rs ! i)
         \<and> platformID (update_records font_name style rs ! i) = platformID (rs ! i)
         \<and> platEncID (update_records font_name style rs ! i) = platEncID (rs ! i)
         \<and> langID (update_records font_name style rs ! i) = langID (rs ! i)
         \<and> (nameID (rs ! i) \<notin> {1, 2, 4, 6, 16}
              \<longrightarrow> update_records font_name style rs ! i = rs ! i))"
  by (simp add: update_records_def update_record_def)

theorem name_table_frame_witness:
  "(1::nat) < length [\<lparr>nameID = 1, platformID = 3, platEncID = 1, langID = 1033, string = str ''Old''\<rparr>,
                \<lparr>nameID = 3, platformID = 1, platEncID = 0, langID = 0, string = str ''uid''\<rparr>]
   \<and> (3::nat) \<notin> {1, 2, 4, 6, 16}
   \<and> update_records (str ''A'') (str ''B'')
        [\<lparr>nameID = 1, platformID = 3, platEncID = 1, langID = 1033, string = str ''Old''\<rparr>,
         \<lparr>nameID = 3, platformID = 1, platEncID = 0, langID = 0, string = str ''uid''\<rparr>] ! 1
       = \<lparr>nameID = 3, platformID = 1, platEncID = 0, langID = 0, string = str ''uid''\<rparr>
   \<and> length (update_records (str ''A'') (str ''B'')
        [\<lparr>nameID = 1, platformID = 3, platEncID = 1, langID = 1033, string = str ''Old''\<rparr>,
         \<lparr>nameID = 3, platformID = 1, platEncID = 0, langID = 0, string = str ''uid''\<rparr>]) = 2"
  using name_table_frame [of "str ''A''" "str ''B''"
      "[\<lparr>nameID = 1, platformID = 3, platEncID = 1, langID = 1033, string = str ''Old''\<rparr>,
        \<lparr>nameID = 3, platformID = 1, platEncID = 0, langID = 0, string = str ''uid''\<rparr>]"]
  by simp

text \<open>
  C7. The output path is the PostScript family, a hyphen, the style without its space
  characters, and the extension of the input path. The extension is the end of the
  input path, taken as it stands: empty, or a dot followed by characters that are
  neither a dot nor a slash. Two input paths with the same extension give the same
  output path, whatever their base names.
\<close>

theorem output_path:
  "\<exists>root ext. splitext font_path = (root, ext) \<and> font_path = root @ ext
     \<and> (ext = [] \<or> (hd ext = DOT \<and> DOT \<notin> set (tl ext) \<and> SLASH \<notin> set ext))
     \<and> new_filename font_name style font_path
         = postscript_font_name font_name @ str ''-'' @ filter (\<lambda>c. c \<noteq> SPACE) style @ ext
     \<and> (\<forall>other. snd (splitext other) = ext
           \<longrightarrow> new_filename font_name style other = new_filename font_name style font_path)"
proof -
  obtain root ext where se: "splitext font_path = (root, ext)" by (cases "splitext font_path")
  have a: "font_path = root @ ext" using splitext_append [of font_path] se by simp
  have b: "ext = [] \<or> (hd ext = DOT \<and> DOT \<notin> set (tl ext) \<and> SLASH \<notin> set ext)"
    using splitext_ext_shape [of font_path] se by auto
  have c: "new_filename font_name style font_path
         = postscript_font_name font_name @ str ''-'' @ filter (\<lambda>c. c \<noteq> SPACE) style @ ext"
    by (simp add: new_filename_def se safe_style_filter)
  have d: "\<forall>other. snd (splitext other) = ext
           \<longrightarrow> new_filename font_name style other = new_filename font_name style font_path"
    by (simp add: new_filename_def se)
  from se a b c d show ?thesis by blast
qed

theorem output_path_witness:
  "splitext (str ''fonts/Old.Name.OTF'') = (str ''fonts/Old.Name'', str ''.OTF'')
   \<and> new_filename (str ''Open Sans'') (str ''Bold Italic'') (str ''fonts/Old.Name.OTF'')
       = str ''OpenSans-BoldItalic.OTF''
   \<and> snd (splitext (str ''x.OTF'')) = str ''.OTF''
   \<and> new_filename (str ''Open Sans'') (str ''Bold Italic'') (str ''x.OTF'')
       = new_filename (str ''Open Sans'') (str ''Bold Italic'') (str ''fonts/Old.Name.OTF'')"
proof -
  have s: "splitext (str ''fonts/Old.Name.OTF'') = (str ''fonts/Old.Name'', str ''.OTF'')"
    by code_simp
  have o: "snd (splitext (str ''x.OTF'')) = str ''.OTF''" by code_simp
  have n: "new_filename (str ''Open Sans'') (str ''Bold Italic'') (str ''fonts/Old.Name.OTF'')
       = str ''OpenSans-BoldItalic.OTF''" by code_simp
  from output_path [of "str ''fonts/Old.Name.OTF''" "str ''Open Sans''" "str ''Bold Italic''"] s o n
  show ?thesis by auto
qed

text \<open>
  C8, as stated, fails for the output path: with family \<open>A\<close>, style \<open>B.C\<close> and the
  input path \<open>font\<close>, which has no extension, the first run saves to \<open>A-B.C\<close>; run on
  that file, the program reads \<open>.C\<close> as the extension and saves to \<open>A-B.C.C\<close>.
\<close>

theorem rename_twice_counterexample:
  "new_filename (str ''A'') (str ''B.C'') (str ''font'') = str ''A-B.C''
   \<and> new_filename (str ''A'') (str ''B.C'') (str ''A-B.C'') = str ''A-B.C.C''
   \<and> new_filename (str ''A'') (str ''B.C'') (new_filename (str ''A'') (str ''B.C'') (str ''font''))
       \<noteq> new_filename (str ''A'') (str ''B.C'') (str ''font'')"
  by code_simp

text \<open>
  C8, amended. Updating the name records twice with the same family and style gives
  the same records as updating them once. The output path computed from the first
  output path is that same path when the input path has an extension and the style has
  no slash, and when the input path has no extension and neither the family nor the
  style has a dot.
\<close>

theorem rename_twice:
  "update_records font_name style (update_records font_name style rs)
     = update_records font_name style rs
   \<and> ((snd (splitext font_path) \<noteq> [] \<and> SLASH \<notin> set style)
        \<or> (snd (splitext font_path) = [] \<and> DOT \<notin> set font_name \<and> DOT \<notin> set style)
       \<longrightarrow> new_filename font_name style (new_filename font_name style font_path)
           = new_filename font_name style font_path)"
  using new_filename_again_ext [of font_path style font_name]
    new_filename_again_plain [of font_path font_name style]
  by (auto simp: update_records_def update_record_twice)

theorem rename_twice_witness:
  "snd (splitext (str ''Old.ttf'')) \<noteq> [] \<and> SLASH \<notin> set (str ''Bold Italic'')
   \<and> new_filename (str ''Open Sans'') (str ''Bold Italic'') (str ''Old.ttf'') = str ''OpenSans-BoldItalic.ttf''
   \<and> new_filename (str ''Open Sans'') (str ''Bold Italic'') (str ''OpenSans-BoldItalic.ttf'')
       = str ''OpenSans-BoldItalic.ttf''"
proof -
  have h1: "snd (splitext (str ''Old.ttf'')) \<noteq> []" by code_simp
  have h2: "SLASH \<notin> set (str ''Bold Italic'')" by code_simp
  have n: "new_filename (str ''Open Sans'') (str ''Bold Italic'') (str ''Old.ttf'') = str ''OpenSans-BoldItalic.ttf''"
    by code_simp
  from rename_twice [of "str ''Open Sans''" "str ''Bold Italic''" "[]" "str ''Old.ttf''"] h1 h2
  have "new_filename (str ''Open Sans'') (str ''Bold Italic'')
          (new_filename (str ''Open Sans'') (str ''Bold Italic'') (str ''Old.ttf''))
        = new_filename (str ''Open Sans'') (str ''Bold Italic'') (str ''Old.ttf'')" by blast
  with h1 h2 n show ?thesis by simp
qed

end
